theory Spec2Isabelle
  imports Main "HOL-Library.Char_ord" "HOL-Library.List_Lexorder" "HOL-Library.Sublist"
begin

section \<open>Python strings and exceptions\<close>

text \<open>
  Strings are \<^typ>\<open>string\<close>, one \<^typ>\<open>char\<close> per character; the order on
  characters and the lexicographic order on strings are those of Python's \<open>str\<close>
  on this character range.  An exception is a value: its class and its message.
\<close>

datatype exn_class =
    AssertionError | IndexError | ValueError | KeyError | TypeError | AttributeError
  | ImportError | ModuleNotFoundError | UnboundLocalError | RuntimeError | PlainException
  | CompileError | LinkError
  | OtherException string
  | OtherBaseException string

datatype exn = Exn exn_class string

text \<open>\<open>except Exception\<close> catches every class but those deriving from \<open>BaseException\<close>
  alone (\<open>KeyboardInterrupt\<close>, \<open>SystemExit\<close>, ...); \<open>except ImportError\<close> catches
  \<open>ImportError\<close> and its subclass \<open>ModuleNotFoundError\<close>.\<close>

fun is_Exception :: "exn \<Rightarrow> bool" where
  "is_Exception (Exn (OtherBaseException _) _) = False"
| "is_Exception _ = True"

fun is_ImportError :: "exn \<Rightarrow> bool" where
  "is_ImportError (Exn ImportError _) = True"
| "is_ImportError (Exn ModuleNotFoundError _) = True"
| "is_ImportError _ = False"



fun exn_str :: "exn \<Rightarrow> string" where
  "exn_str (Exn _ m) = m"

fun class_name :: "exn_class \<Rightarrow> string" where
  "class_name AssertionError = ''AssertionError''"
| "class_name IndexError = ''IndexError''"
| "class_name ValueError = ''ValueError''"
| "class_name KeyError = ''KeyError''"
| "class_name TypeError = ''TypeError''"
| "class_name AttributeError = ''AttributeError''"
| "class_name ImportError = ''ImportError''"
| "class_name ModuleNotFoundError = ''ModuleNotFoundError''"
| "class_name UnboundLocalError = ''UnboundLocalError''"
| "class_name RuntimeError = ''RuntimeError''"
| "class_name PlainException = ''Exception''"
| "class_name CompileError = ''distutils.errors.CompileError''"
| "class_name LinkError = ''distutils.errors.LinkError''"
| "class_name (OtherException n) = n"
| "class_name (OtherBaseException n) = n"

fun exn_type_repr :: "exn \<Rightarrow> string" where
  "exn_type_repr (Exn c _) = ''<class '' @ [CHR 0x27] @ class_name c @ [CHR 0x27] @ ''>''"

text \<open>\<open>s.split(c)\<close> for a one-character separator: always at least one piece.\<close>

fun split_on :: "char \<Rightarrow> string \<Rightarrow> string list" where
  "split_on c [] = [[]]"
| "split_on c (x # xs) =
     (if x = c then [] # split_on c xs
      else (case split_on c xs of [] \<Rightarrow> [[x]] | w # ws \<Rightarrow> (x # w) # ws))"

text \<open>\<open>sep.join(ws)\<close>.\<close>

fun join :: "string \<Rightarrow> string list \<Rightarrow> string" where
  "join sep [] = []"
| "join sep [w] = w"
| "join sep (w # v # ws) = w @ sep @ join sep (v # ws)"

text \<open>\<open>s.replace(a, b)\<close> for one-character \<open>a\<close> and \<open>b\<close>.\<close>

definition replace_char :: "char \<Rightarrow> char \<Rightarrow> string \<Rightarrow> string" where
  "replace_char a b s = map (\<lambda>c. if c = a then b else c) s"

text \<open>\<open>sub in s\<close> on strings: \<open>sub\<close> occurs in \<open>s\<close> as a contiguous block.\<close>

fun contains :: "string \<Rightarrow> string \<Rightarrow> bool" where
  "contains [] sub = (sub = [])"
| "contains (x # xs) sub = (prefix sub (x # xs) \<or> contains xs sub)"

text \<open>\<open>str(n)\<close> of a non-negative integer, as \<open>f"{n}"\<close> and \<open>"%s" % n\<close> print it.\<close>

definition digit_char :: "nat \<Rightarrow> char" where
  "digit_char d = char_of (48 + d)"

fun str_of_nat :: "nat \<Rightarrow> string" where
  "str_of_nat n = (if n < 10 then [digit_char n] else str_of_nat (n div 10) @ [digit_char (n mod 10)])"

declare str_of_nat.simps [simp del]

text \<open>\<open>int(c)\<close> of a one-character string: the digit's value, \<open>ValueError\<close> otherwise.\<close>

definition int_of_char :: "char \<Rightarrow> exn + nat" where
  "int_of_char c =
     (if CHR ''0'' \<le> c \<and> c \<le> CHR ''9'' then Inr (of_char c - 48)
      else Inl (Exn ValueError (''invalid literal for int() with base 10: '' @ [CHR 0x27, c, CHR 0x27])))"

definition YELLOW :: string where "YELLOW = CHR 0x1B # ''[93m''"
definition END :: string where "END = CHR 0x1B # ''[0m''"
definition WARNING :: string where "WARNING = YELLOW @ '' [WARNING] '' @ END"

definition DEFAULT_COMPUTE_CAPABILITIES :: string where
  "DEFAULT_COMPUTE_CAPABILITIES = ''7.0''"


section \<open>The machine the builder probes, and the state it changes\<close>

text \<open>Values found in a CPU-info dictionary: \<open>None\<close>, integers, strings, lists.\<close>

datatype pyval = PyNone | PyInt int | PyStr string | PyList "pyval list"

type_synonym cpu_info = "string \<rightharpoonup> pyval"

text \<open>The library and system calls of \<open>has_function\<close>, in source order: those of the
  \<open>try\<close> body, then those of the \<open>finally\<close> block.\<close>

datatype step =
    SetVerbosity | NewCompiler | CustomizeCompiler | Mkdtemp | WriteProgram
  | OpenStderrFile | DupStderr | RedirectStderr | Compile | LinkExecutable
  | RestoreStderr | CloseStderrFile | Rmtree

text \<open>
  What the code reads from outside and cannot change.  Each probe is the outcome of the
  call named in its comment: the value returned, or the exception raised.
\<close>

record probes =
  cuda_home :: "string option"  \<comment> \<open>\<open>torch.utils.cpp_extension.CUDA_HOME\<close>\<close>
  nvcc_release :: "exn + nat \<times> nat"
    \<comment> \<open>lines 51 to 57: running \<open>nvcc -V\<close> and reading the two numbers after the word
      \<open>release\<close>, or the exception raised on the way\<close>
  torch_version_cuda :: "string option"  \<comment> \<open>\<open>torch.version.cuda\<close>\<close>
  win32 :: bool  \<comment> \<open>\<open>sys.platform == "win32"\<close>\<close>
  device_caps :: "(nat \<times> nat) list"
    \<comment> \<open>\<open>torch.cuda.get_device_capability(i)\<close> for \<open>i\<close> below \<open>device_count()\<close>\<close>
  cpuinfo_import :: "exn option"  \<comment> \<open>\<open>from cpuinfo import get_cpu_info\<close>\<close>
  get_cpu_info :: "exn + cpu_info"
  type_ok :: "string \<Rightarrow> bool"  \<comment> \<open>the shell's \<open>type cmd\<close> exits with 0\<close>
  lscpu_text :: "exn + string"
    \<comment> \<open>\<open>subprocess.check_output("lscpu", shell=True).decode("utf-8").strip().lower()\<close>\<close>
  ninja_import :: "exn option"  \<comment> \<open>\<open>import ninja\<close>\<close>
  path_isabs :: "string \<Rightarrow> bool"  \<comment> \<open>\<open>os.path.isabs\<close>\<close>
  path_join :: "string \<Rightarrow> string \<Rightarrow> string"  \<comment> \<open>\<open>os.path.join\<close>\<close>
  package_root :: string  \<comment> \<open>\<open>Path(__file__).parent.parent.absolute()\<close>\<close>
  os_fail :: "step \<Rightarrow> exn option"  \<comment> \<open>the exception a call of \<open>has_function\<close> raises, if any\<close>
  shlex_split :: "string \<Rightarrow> exn + string list"  \<comment> \<open>\<open>shlex.split\<close>\<close>
  mkdtemp_name :: string  \<comment> \<open>the directory \<open>tempfile.mkdtemp()\<close> creates\<close>
  load_result :: "exn + string"  \<comment> \<open>\<open>torch.utils.cpp_extension.load\<close>: the module, or its error\<close>
  build_duration :: string  \<comment> \<open>the elapsed time as \<open>print\<close> shows it\<close>

datatype builder_class = OpBuilder | CUDAOpBuilder | TorchCPUOpBuilder

text \<open>The arguments of one call of the external \<open>load\<close>, and the value the environment
  variable \<open>TORCH_CUDA_ARCH_LIST\<close> has while it runs.\<close>

record load_call =
  load_name :: string
  load_sources :: "string list"
  extra_include_paths :: "string list"
  extra_cflags :: "string list"
  extra_cuda_cflags :: "string list"
  load_extra_ldflags :: "string list"
  load_verbose :: bool
  arch_list_during :: "string option"

text \<open>
  The builder object (\<open>self\<close>) and the process state its methods change: the
  environment variables, what was printed and logged, the open file standard error
  refers to, the open files and the directories that exist, the calls of
  \<open>has_function\<close> that completed (each with the flag list passed to it, empty when it
  takes none), and the calls made to \<open>load\<close>.
  \<open>op_sources\<close> and \<open>op_absolute_name\<close> are what the abstract methods
  \<open>sources()\<close> and \<open>absolute_name()\<close> of the concrete operator return.
\<close>

record state =
  name :: string
  cls :: builder_class
  op_sources :: "string list"
  op_absolute_name :: string
  jit_mode :: bool
  build_for_cpu :: bool
  enable_bf16 :: bool
  error_log :: "string option"
  environ :: "string \<rightharpoonup> string"
  stdout :: "string list"
  logged :: "string list"
  stderr_fd :: string
  open_files :: "string set"
  dirs :: "string set"
  completed :: "(step \<times> string list) list"
  load_calls :: "load_call list"

definition print :: "string \<Rightarrow> state \<Rightarrow> state" where
  "print msg s = s\<lparr>stdout := stdout s @ [msg]\<rparr>"

definition logger_error :: "string \<Rightarrow> state \<Rightarrow> state" where
  "logger_error msg s = s\<lparr>logged := logged s @ [msg]\<rparr>"

definition isinstance_CUDAOpBuilder :: "state \<Rightarrow> bool" where
  "isinstance_CUDAOpBuilder s = (cls s = CUDAOpBuilder \<or> cls s = TorchCPUOpBuilder)"

section \<open>CUDA version probes\<close>

definition installed_cuda_version :: "probes \<Rightarrow> exn + nat \<times> nat" where
  "installed_cuda_version P =
     (case cuda_home P of
        None \<Rightarrow> Inl (Exn AssertionError ''CUDA_HOME does not exist, unable to compile CUDA op(s)'')
      | Some _ \<Rightarrow> nvcc_release P)"

text \<open>\<open>Version("M.m") >= Version("11.8")\<close>: the release tuples compared in order.\<close>

definition version_ge :: "nat \<times> nat \<Rightarrow> nat \<times> nat \<Rightarrow> bool" where
  "version_ge a b = (fst a > fst b \<or> (fst a = fst b \<and> snd a \<ge> snd b))"

definition get_default_compute_capabilities :: "probes \<Rightarrow> exn + string" where
  "get_default_compute_capabilities P =
     (let compute_caps = DEFAULT_COMPUTE_CAPABILITIES in
      if cuda_home P = None then Inr compute_caps
      else (case installed_cuda_version P of
              Inl e \<Rightarrow> Inl e
            | Inr v \<Rightarrow>
                if fst v \<ge> 11 then
                  (let compute_caps = compute_caps @ '';8.0'' in
                   if version_ge v (11, 8) then Inr (compute_caps @ '';9.0'')
                   else Inr compute_caps)
                else Inr compute_caps))"

definition cuda_minor_mismatch_ok :: "nat \<rightharpoonup> string list" where
  "cuda_minor_mismatch_ok = map_of
     [(10, [''10.0'', ''10.1'', ''10.2'']),
      (11, [''11.0'', ''11.1'', ''11.2'', ''11.3'', ''11.4'', ''11.5'', ''11.6'', ''11.7'', ''11.8'']),
      (12, [''12.0'', ''12.1''])]"

text \<open>\<open>".".join(v.split(".")[:2])\<close>\<close>

definition major_minor :: "string \<Rightarrow> string" where
  "major_minor v = join ''.'' (take 2 (split_on CHR ''.'' v))"

definition sys_cuda_version :: "nat \<times> nat \<Rightarrow> string" where
  "sys_cuda_version v = str_of_nat (fst v) @ ''.'' @ str_of_nat (snd v)"

text \<open>The test of the inner \<open>if\<close>: the installed major version is a key of the table and
  both version strings are in its entry.\<close>

definition mismatch_ok :: "nat \<Rightarrow> string \<Rightarrow> string \<Rightarrow> bool" where
  "mismatch_ok cuda_major sys_v torch_v =
     (case cuda_minor_mismatch_ok cuda_major of
        None \<Rightarrow> False
      | Some vs \<Rightarrow> sys_v \<in> set vs \<and> torch_v \<in> set vs)"

definition assert_no_cuda_mismatch :: "probes \<Rightarrow> state \<Rightarrow> (exn + bool) \<times> state" where
  "assert_no_cuda_mismatch P s =
     (case installed_cuda_version P of
        Inl e \<Rightarrow> (Inl e, s)
      | Inr v \<Rightarrow>
         (case torch_version_cuda P of
            None \<Rightarrow> (Inl (Exn AttributeError
                       (CHR 0x27 # ''NoneType'' @ CHR 0x27 # '' object has no attribute ''
                        @ CHR 0x27 # ''split'' @ [CHR 0x27])), s)
          | Some tv \<Rightarrow>
             (let sys_v = sys_cuda_version v; torch_v = major_minor tv in
              if sys_v \<noteq> torch_v then
                if mismatch_ok (fst v) sys_v torch_v then
                  (Inr True, print
                     (''Installed CUDA version '' @ sys_v @ '' does not match the ''
                      @ ''version torch was compiled with '' @ tv @ '' ''
                      @ ''but since the APIs are compatible, accepting this combination'') s)
                else if environ s ''ATORCH_SKIP_CUDA_CHECK'' = Some ''1'' then
                  (Inr True, print
                     (WARNING @ '' ATorch Op Builder: Installed CUDA version '' @ sys_v
                      @ '' does not match the '' @ ''version torch was compiled with '' @ tv @ ''.''
                      @ ''Detected `ATORCH_SKIP_CUDA_CHECK=1`: Allowing this combination of CUDA, ''
                      @ ''but it may result in unexpected behavior.'') s)
                else
                  (Inl (Exn PlainException
                     (''>- ATorch Op Builder: Installed CUDA version '' @ sys_v
                      @ '' does not match the '' @ ''version torch was compiled with '' @ tv
                      @ '', unable to compile '' @ ''cuda/cpp extensions without a matching cuda version.'')), s)
              else (Inr True, s))))"

section \<open>CPU probes of the base class\<close>

text \<open>Sequencing of two fallible, state-changing computations: an exception of the
  first ends the whole, with the state as it is at that point.\<close>

definition and_then ::
  "(exn + 'a) \<times> state \<Rightarrow> ('a \<Rightarrow> state \<Rightarrow> (exn + 'b) \<times> state) \<Rightarrow> (exn + 'b) \<times> state" where
  "and_then r f = (case r of (Inl e, s) \<Rightarrow> (Inl e, s) | (Inr a, s) \<Rightarrow> f a s)"

text \<open>A computation returns (rather than raises).\<close>

definition returns :: "(exn + 'a) \<times> 's \<Rightarrow> bool" where
  "returns r = (case fst r of Inl _ \<Rightarrow> False | Inr _ \<Rightarrow> True)"

definition strip_empty_entries :: "string list \<Rightarrow> string list" where
  "strip_empty_entries args = filter (\<lambda>x. length x > 0) args"

text \<open>\<open>repr\<close> of a list of plain words (no quote or escape in them), as the f-string
  of \<open>command_exists\<close> prints \<open>cmds\<close>.\<close>

definition repr_str :: "string \<Rightarrow> string" where
  "repr_str w = CHR 0x27 # w @ [CHR 0x27]"

definition repr_str_list :: "string list \<Rightarrow> string" where
  "repr_str_list ws = ''['' @ join '', '' (map repr_str ws) @ '']''"

definition warning :: "string \<Rightarrow> state \<Rightarrow> state" where
  "warning msg s = print (WARNING @ '' '' @ msg) (s\<lparr>error_log := Some msg\<rparr>)"

definition command_exists :: "probes \<Rightarrow> string \<Rightarrow> state \<Rightarrow> bool \<times> state" where
  "command_exists P cmd s =
     (let cmds = (if CHR ''|'' \<in> set cmd then split_on CHR ''|'' cmd else [cmd]);
          valid = foldl (\<lambda>valid c. valid \<or> type_ok P c) False cmds
      in if \<not> valid \<and> length cmds > 1 then
           (valid, print (WARNING @ '' '' @ name s @ '' requires one of the following commands ''
                          @ CHR 0x27 # repr_str_list cmds @ CHR 0x27 # '', but it does not exist!'') s)
         else if \<not> valid \<and> length cmds = 1 then
           (valid, print (WARNING @ '' '' @ name s @ '' requires the '' @ CHR 0x27 # last cmds
                          @ CHR 0x27 # '' command, but it does not exist!'') s)
         else (valid, s))"

definition backup_cpuinfo :: "probes \<Rightarrow> state \<Rightarrow> (exn + cpu_info option) \<times> state" where
  "backup_cpuinfo P s =
     (case command_exists P ''lscpu'' s of
        (ok, s1) \<Rightarrow>
          if \<not> ok then
            (Inr None,
             warning (name s1 @ '' attempted to query '' @ CHR 0x27 # ''lscpu'' @ CHR 0x27
                      # '' after failing to use py-cpuinfo ''
                      @ ''to detect the CPU architecture. '' @ CHR 0x27 # ''lscpu'' @ CHR 0x27
                      # '' does not appear to exist on ''
                      @ ''your system, will fall back to use -march=native and non-vectorized execution.'') s1)
          else
            (case lscpu_text P of
               Inl e \<Rightarrow> (Inl e, s1)
             | Inr result \<Rightarrow>
                 (let cpu_info = [''arch'' \<mapsto> PyNone, ''flags'' \<mapsto> PyStr []] in
                  if contains result ''genuineintel'' \<or> contains result ''authenticamd'' then
                    (let flags = (if contains result ''avx512'' then ''avx512,''
                                  else if contains result ''avx512f'' then ''avx512f,''
                                  else []);
                         flags = (if contains result ''avx2'' then flags @ ''avx2'' else flags)
                     in (Inr (Some (cpu_info(''arch'' \<mapsto> PyStr ''X86_64'', ''flags'' \<mapsto> PyStr flags))), s1))
                  else if contains result ''ppc64le'' then
                    (Inr (Some (cpu_info(''arch'' \<mapsto> PyStr ''PPC_''))), s1)
                  else (Inr (Some cpu_info), s1))))"

text \<open>
  The two \<open>try\<close> statements that open both \<open>cpu_arch\<close> and \<open>simd_width\<close> (\<open>who\<close> is
  the method's name, which the log line carries).  The result \<open>None\<close> stands for the
  early \<open>return\<close> of the method's default, \<open>Some d\<close> for reaching the last \<open>if\<close>
  with \<open>cpu_info = d\<close>.  When the import fails and the backup answers, the name
  \<open>get_cpu_info\<close> is unbound at the call of the second \<open>try\<close>; the
  \<open>UnboundLocalError\<close> is an \<open>Exception\<close>, so the second handler runs.
\<close>

definition py_cpuinfo_failed_msg :: "state \<Rightarrow> exn \<Rightarrow> string" where
  "py_cpuinfo_failed_msg s e =
     name s @ '' attempted to use `py-cpuinfo` but failed (exception type: '' @ exn_type_repr e
     @ '', '' @ exn_str e @ ''), '' @ ''falling back to `lscpu` to get this information.''"

definition call_get_cpu_info :: "probes \<Rightarrow> bool \<Rightarrow> state \<Rightarrow> (exn + cpu_info option) \<times> state" where
  "call_get_cpu_info P bound s =
     (case (if bound then get_cpu_info P
            else Inl (Exn UnboundLocalError
                   (''local variable '' @ CHR 0x27 # ''get_cpu_info'' @ CHR 0x27
                    # '' referenced before assignment''))) of
        Inr d \<Rightarrow> (Inr (Some d), s)
      | Inl e \<Rightarrow>
          if is_Exception e then backup_cpuinfo P (warning (py_cpuinfo_failed_msg s e) s)
          else (Inl e, s))"

definition probe_cpu_info :: "probes \<Rightarrow> string \<Rightarrow> state \<Rightarrow> (exn + cpu_info option) \<times> state" where
  "probe_cpu_info P who s =
     (case cpuinfo_import P of
        None \<Rightarrow> call_get_cpu_info P True s
      | Some e \<Rightarrow>
          if is_ImportError e then
            and_then (backup_cpuinfo P (logger_error (''Error '' @ who @ '': '' @ exn_str e) s))
              (\<lambda>cpu_info s1. case cpu_info of
                   None \<Rightarrow> (Inr None, s1)
                 | Some _ \<Rightarrow> call_get_cpu_info P False s1)
          else (Inl e, s))"

definition key_error :: "string \<Rightarrow> exn" where
  "key_error k = Exn KeyError (repr_str k)"

definition type_name :: "pyval \<Rightarrow> string" where
  "type_name v = (case v of PyNone \<Rightarrow> ''NoneType'' | PyInt _ \<Rightarrow> ''int'' | PyStr _ \<Rightarrow> ''str''
                  | PyList _ \<Rightarrow> ''list'')"

text \<open>\<open>cpu_info["arch"].startswith("PPC_")\<close>\<close>

definition arch_is_ppc :: "cpu_info \<Rightarrow> exn + bool" where
  "arch_is_ppc d =
     (case d ''arch'' of
        None \<Rightarrow> Inl (key_error ''arch'')
      | Some (PyStr a) \<Rightarrow> Inr (prefix ''PPC_'' a)
      | Some v \<Rightarrow> Inl (Exn AttributeError
                    (repr_str (type_name v) @ '' object has no attribute '' @ repr_str ''startswith'')))"

definition cpu_arch :: "probes \<Rightarrow> state \<Rightarrow> (exn + string) \<times> state" where
  "cpu_arch P s =
     and_then (probe_cpu_info P ''cpu_arch'' s)
       (\<lambda>cpu_info s1. case cpu_info of
            None \<Rightarrow> (Inr ''-march=native'', s1)
          | Some d \<Rightarrow>
              (case arch_is_ppc d of
                 Inl e \<Rightarrow> (Inl e, s1)
               | Inr ppc \<Rightarrow> if ppc then (Inr ''-mcpu=native'', s1) else (Inr ''-march=native'', s1)))"

text \<open>\<open>needle in v\<close>: a substring test on a string, a membership test on a list.\<close>

definition py_in :: "string \<Rightarrow> pyval \<Rightarrow> exn + bool" where
  "py_in needle v =
     (case v of
        PyStr t \<Rightarrow> Inr (contains t needle)
      | PyList vs \<Rightarrow> Inr (PyStr needle \<in> set vs)
      | _ \<Rightarrow> Inl (Exn TypeError (''argument of type '' @ repr_str (type_name v) @ '' is not iterable'')))"

text \<open>The last \<open>if\<close> of \<open>simd_width\<close>, on the dictionary either probe delivered.\<close>

definition simd_width_of :: "cpu_info \<Rightarrow> exn + string" where
  "simd_width_of d =
     (case d ''arch'' of
        None \<Rightarrow> Inl (key_error ''arch'')
      | Some arch \<Rightarrow>
          if arch = PyStr ''X86_64'' then
            (case d ''flags'' of
               None \<Rightarrow> Inl (key_error ''flags'')
             | Some flags \<Rightarrow>
                 (case py_in ''avx512'' flags of
                    Inl e \<Rightarrow> Inl e
                  | Inr a \<Rightarrow>
                      (case (if a then Inr True else py_in ''avx512f'' flags) of
                         Inl e \<Rightarrow> Inl e
                       | Inr avx512 \<Rightarrow>
                           if avx512 then Inr ''-D__AVX512__''
                           else (case py_in ''avx2'' flags of
                                   Inl e \<Rightarrow> Inl e
                                 | Inr avx2 \<Rightarrow>
                                     if avx2 then Inr ''-D__AVX256__'' else Inr ''-D__SCALAR__''))))
          else Inr ''-D__SCALAR__'')"

definition simd_width :: "probes \<Rightarrow> state \<Rightarrow> (exn + string) \<times> state" where
  "simd_width P s =
     and_then (probe_cpu_info P ''simd_width'' s)
       (\<lambda>cpu_info s1. case cpu_info of
            None \<Rightarrow> (Inr ''-D__SCALAR__'', s1)
          | Some d \<Rightarrow> (simd_width_of d, s1))"

definition is_cuda_enable :: "probes \<Rightarrow> state \<Rightarrow> string \<times> state" where
  "is_cuda_enable P s =
     (case assert_no_cuda_mismatch P s of
        (Inr _, s1) \<Rightarrow> (''-D__ENABLE_CUDA__'', s1)
      | (Inl _, s1) \<Rightarrow>
          (''-D__DISABLE_CUDA__'',
           print (WARNING @ '' '' @ name s1 @ '' cuda is missing or is incompatible with installed torch, ''
                  @ ''only cpu ops can be compiled!'') s1))"

section \<open>Compute capabilities\<close>

text \<open>The loop over the visible devices: each capability \<open>"M.m"\<close> once, in order of
  first appearance.\<close>

definition device_ccs :: "probes \<Rightarrow> string list" where
  "device_ccs P =
     foldl (\<lambda>ccs v. let cc = str_of_nat (fst v) @ ''.'' @ str_of_nat (snd v)
                     in if cc \<notin> set ccs then ccs @ [cc] else ccs)
       [] (device_caps P)"

text \<open>\<open>ccs[-1] += "+PTX"\<close>: an \<open>IndexError\<close> on the empty list.\<close>

definition tag_last_ptx :: "string list \<Rightarrow> exn + string list" where
  "tag_last_ptx ccs =
     (if ccs = [] then Inl (Exn IndexError ''list index out of range'')
      else Inr (butlast ccs @ [last ccs @ ''+PTX'']))"

text \<open>Lines 514 to 538: the capability list, before filtering.\<close>

definition select_ccs :: "probes \<Rightarrow> string option \<Rightarrow> state \<Rightarrow> (exn + string list) \<times> state" where
  "select_ccs P cross_compile_archs s =
     (if jit_mode s then (tag_last_ptx (sort (device_ccs P)), s)
      else
        (case environ s ''TORCH_CUDA_ARCH_LIST'' of
           Some cross_compile_archs_env \<Rightarrow>
             (let s1 = (if cross_compile_archs \<noteq> None then
                          print (WARNING @ '' env var `TORCH_CUDA_ARCH_LIST='' @ cross_compile_archs_env
                                 @ ''` '' @ ''overrides `cross_compile_archs={cross_compile_archs}`'') s
                        else s)
              in (Inr (split_on CHR '';'' (replace_char CHR '' '' CHR '';'' cross_compile_archs_env)), s1))
         | None \<Rightarrow>
             (case cross_compile_archs of
                Some archs \<Rightarrow> (Inr (split_on CHR '';'' archs), s)
              | None \<Rightarrow>
                  (case get_default_compute_capabilities P of
                     Inl e \<Rightarrow> (Inl e, s)
                   | Inr archs \<Rightarrow> (Inr (split_on CHR '';'' archs), s)))))"

definition filter_ccs :: "string list \<Rightarrow> string list" where
  "filter_ccs ccs = ccs"

text \<open>The flags one capability \<open>cc\<close> of at least three characters adds to \<open>args\<close>.\<close>

definition gencode_flags :: "string \<Rightarrow> string list" where
  "gencode_flags cc =
     (let num = [cc ! 0, cc ! 2] in
      [''-gencode=arch=compute_'' @ num @ '',code=sm_'' @ num]
      @ (if suffix ''+PTX'' cc then [''-gencode=arch=compute_'' @ num @ '',code=compute_'' @ num]
         else []))"

text \<open>The \<open>for\<close> loop of lines 548 to 555.  \<open>cc[0]\<close> and \<open>cc[2]\<close> raise on a string
  shorter than three characters, \<open>int(cc[0])\<close> on a first character that is no digit.\<close>

fun cc_loop :: "string list \<Rightarrow> string list \<Rightarrow> state \<Rightarrow> (exn + string list) \<times> state" where
  "cc_loop [] args s = (Inr args, s)"
| "cc_loop (cc # ccs) args s =
     (if length cc < 3 then (Inl (Exn IndexError ''string index out of range''), s)
      else
        (case int_of_char (cc ! 0) of
           Inl e \<Rightarrow> (Inl e, s)
         | Inr d \<Rightarrow>
             cc_loop ccs (args @ gencode_flags cc)
               (if d \<le> 7 then s\<lparr>enable_bf16 := False\<rparr> else s)))"

definition compute_capability_args ::
  "probes \<Rightarrow> string option \<Rightarrow> state \<Rightarrow> (exn + string list) \<times> state" where
  "compute_capability_args P cross_compile_archs s =
     and_then (select_ccs P cross_compile_archs s)
       (\<lambda>ccs s1.
          let ccs = filter_ccs ccs in
          if length ccs = 0 then
            (Inl (Exn RuntimeError
               (''Unable to load '' @ name s1
                @ '' op due to no compute capabilities remaining after filtering'')), s1)
          else cc_loop ccs [] (s1\<lparr>enable_bf16 := True\<rparr>))"

section \<open>Flag lists of the three classes\<close>

definition is_compatible :: "state \<Rightarrow> bool \<Rightarrow> bool" where
  "is_compatible s verbose = True"

definition include_paths :: "state \<Rightarrow> string list" where
  "include_paths s = []"

definition extra_ldflags :: "state \<Rightarrow> string list" where
  "extra_ldflags s =
     (case cls s of
        TorchCPUOpBuilder \<Rightarrow> if build_for_cpu s then [''-fopenmp''] else [''-lcurand'']
      | _ \<Rightarrow> [])"

definition libraries_args :: "probes \<Rightarrow> state \<Rightarrow> string list" where
  "libraries_args P s =
     (if build_for_cpu s then []
      else if win32 P then [''cublas'', ''curand'']
      else [])"

text \<open>\<open>CUDAOpBuilder.cxx_args\<close>\<close>

definition cuda_cxx_args :: "probes \<Rightarrow> string list" where
  "cuda_cxx_args P =
     (if win32 P then [''-O2''] else [''-O3'', ''-std=c++17'', ''-g'', ''-Wno-reorder''])"

text \<open>\<open>TorchCPUOpBuilder.cxx_args\<close>\<close>

definition torch_cpu_cxx_args :: "probes \<Rightarrow> state \<Rightarrow> (exn + string list) \<times> state" where
  "torch_cpu_cxx_args P s =
     and_then
       (if \<not> build_for_cpu s then
          (case cuda_home P of
             None \<Rightarrow> (Inl (Exn TypeError ''expected str, bytes or os.PathLike object, not NoneType''), s)
           | Some home \<Rightarrow>
               (let CUDA_LIB64 = path_join P home ''lib64'' in
                (Inr (cuda_cxx_args P @ [''-L'' @ CUDA_LIB64, ''-lcudart'', ''-lcublas'', ''-g'']), s)))
        else (Inr [], s))
       (\<lambda>args s1.
          and_then (cpu_arch P s1)
            (\<lambda>CPU_ARCH s2.
               and_then (simd_width P s2)
                 (\<lambda>SIMD_WIDTH s3.
                    case is_cuda_enable P s3 of
                      (CUDA_ENABLE, s4) \<Rightarrow>
                        (Inr (args @ [CPU_ARCH, ''-fopenmp'', SIMD_WIDTH, CUDA_ENABLE]), s4))))"

definition cxx_args :: "probes \<Rightarrow> state \<Rightarrow> (exn + string list) \<times> state" where
  "cxx_args P s =
     (case cls s of
        OpBuilder \<Rightarrow> (Inr [], s)
      | CUDAOpBuilder \<Rightarrow> (Inr (cuda_cxx_args P), s)
      | TorchCPUOpBuilder \<Rightarrow> torch_cpu_cxx_args P s)"

text \<open>\<open>CUDAOpBuilder.nvcc_args\<close>, which \<open>TorchCPUOpBuilder\<close> inherits.\<close>

definition cuda_nvcc_args :: "probes \<Rightarrow> state \<Rightarrow> (exn + string list) \<times> state" where
  "cuda_nvcc_args P s =
     (if build_for_cpu s then (Inr [], s)
      else
        (case installed_cuda_version P of
           Inl e \<Rightarrow> (Inl e, s)
         | Inr v \<Rightarrow>
             (let args = [''-O3''] @
                    [if win32 P then ''-allow-unsupported-compiler'' else [],
                     ''--use_fast_math'',
                     if fst v > 10 then ''-std=c++17'' else ''-std=c++14'',
                     ''-U__CUDA_NO_HALF_OPERATORS__'',
                     ''-U__CUDA_NO_HALF_CONVERSIONS__'',
                     ''-U__CUDA_NO_HALF2_OPERATORS__''];
                  args = (if environ s ''ATORCH_DEBUG_CUDA_BUILD'' = Some ''1''
                          then args @ [''--ptxas-options=-v''] else args)
              in and_then (compute_capability_args P None s)
                   (\<lambda>cc_args s1. (Inr (args @ cc_args), s1)))))"

definition nvcc_args :: "probes \<Rightarrow> state \<Rightarrow> (exn + string list) \<times> state" where
  "nvcc_args P s =
     (case cls s of
        OpBuilder \<Rightarrow> (Inr [], s)
      | _ \<Rightarrow> cuda_nvcc_args P s)"

definition atorch_src_path :: "probes \<Rightarrow> string \<Rightarrow> string" where
  "atorch_src_path P code_path =
     (if path_isabs P code_path then code_path else path_join P (package_root P) code_path)"

text \<open>The test guarding both places where \<open>-DBF16_AVAILABLE\<close> is appended.\<close>

definition bf16_flags :: "state \<Rightarrow> string list" where
  "bf16_flags s = (if \<not> build_for_cpu s \<and> enable_bf16 s then [''-DBF16_AVAILABLE''] else [])"

text \<open>\<open>try: assert_no_cuda_mismatch(...); build_for_cpu = False\<close>,
  \<open>except BaseException: build_for_cpu = True\<close>.\<close>

definition set_build_for_cpu :: "probes \<Rightarrow> state \<Rightarrow> state" where
  "set_build_for_cpu P s =
     (case assert_no_cuda_mismatch P s of
        (Inr _, s1) \<Rightarrow> s1\<lparr>build_for_cpu := False\<rparr>
      | (Inl _, s1) \<Rightarrow> s1\<lparr>build_for_cpu := True\<rparr>)"

section \<open>Just-in-time loading and the extension objects\<close>

text \<open>The external \<open>load\<close>: the call is recorded with the value
  \<open>TORCH_CUDA_ARCH_LIST\<close> has at that moment; it returns the module or raises.\<close>

definition load :: "probes \<Rightarrow> load_call \<Rightarrow> state \<Rightarrow> (exn + string) \<times> state" where
  "load P c s =
     (load_result P,
      s\<lparr>load_calls := load_calls s @ [c\<lparr>arch_list_during := environ s ''TORCH_CUDA_ARCH_LIST''\<rparr>]\<rparr>)"

text \<open>Lines 461 to 464: the arch list is stashed and blanked, when the variable is set.\<close>

definition stash_arch_list :: "state \<Rightarrow> string option \<times> state" where
  "stash_arch_list s =
     (case environ s ''TORCH_CUDA_ARCH_LIST'' of
        Some v \<Rightarrow> (Some v, s\<lparr>environ := (environ s)(''TORCH_CUDA_ARCH_LIST'' \<mapsto> [])\<rparr>)
      | None \<Rightarrow> (None, s))"

text \<open>Lines 489 and 490: \<open>if torch_arch_list:\<close> is false for \<open>None\<close> and for the
  empty string.\<close>

definition reset_arch_list :: "string option \<Rightarrow> state \<Rightarrow> state" where
  "reset_arch_list torch_arch_list s =
     (case torch_arch_list of
        Some v \<Rightarrow> if v \<noteq> [] then s\<lparr>environ := (environ s)(''TORCH_CUDA_ARCH_LIST'' \<mapsto> v)\<rparr> else s
      | None \<Rightarrow> s)"

text \<open>Lines 466 to 472: the two flag lists given to \<open>load\<close>, \<open>cxx_args\<close> first in the
  pair.\<close>

definition jit_flags :: "probes \<Rightarrow> state \<Rightarrow> (exn + string list \<times> string list) \<times> state" where
  "jit_flags P s =
     and_then (nvcc_args P s)
       (\<lambda>nv s1.
          and_then (cxx_args P s1)
            (\<lambda>cx s2.
               let nvcc_args = strip_empty_entries nv;
                   cxx_args = strip_empty_entries cx
               in if isinstance_CUDAOpBuilder s2 then
                    (Inr (cxx_args @ bf16_flags s2, nvcc_args @ bf16_flags s2), s2)
                  else (Inr (cxx_args, nvcc_args), s2)))"

definition jit_load :: "probes \<Rightarrow> bool \<Rightarrow> state \<Rightarrow> (exn + string) \<times> state" where
  "jit_load P verbose s =
     (if \<not> is_compatible s verbose then
        (Inl (Exn RuntimeError
           (''Unable to JIT load the '' @ name s @ '' op due to it not being compatible due to ''
            @ ''hardware/software issue. {self.error_log}'')), s)
      else
        (case ninja_import P of
           Some e \<Rightarrow>
             if is_ImportError e then
               (Inl (Exn RuntimeError
                  (''Unable to JIT load the '' @ name s @ '' op due to ninja not being installed.'')), s)
             else (Inl e, s)
         | None \<Rightarrow>
             (let s1 = (if isinstance_CUDAOpBuilder s then set_build_for_cpu P s else s);
                  s2 = s1\<lparr>jit_mode := True\<rparr>;
                  sources = map (atorch_src_path P) (op_sources s2);
                  extra_include_paths = map (atorch_src_path P) (include_paths s2)
              in case stash_arch_list s2 of
                   (torch_arch_list, s3) \<Rightarrow>
                     and_then (jit_flags P s3)
                       (\<lambda>flags s4.
                          and_then
                            (load P
                               \<lparr>load_name = name s4,
                                load_sources = strip_empty_entries sources,
                                extra_include_paths = strip_empty_entries extra_include_paths,
                                extra_cflags = fst flags,
                                extra_cuda_cflags = snd flags,
                                load_extra_ldflags = strip_empty_entries (extra_ldflags s4),
                                load_verbose = verbose,
                                arch_list_during = None\<rparr> s4)
                            (\<lambda>op_module s5.
                               let s6 = (if verbose then
                                           print (''Time to load '' @ name s5 @ '' op: ''
                                                  @ build_duration P @ '' seconds'') s5
                                         else s5)
                               in (Inr op_module, reset_arch_list torch_arch_list s6))))))"

text \<open>The object handed to the extension-build API by \<open>builder()\<close>.\<close>

record extension =
  cuda_extension :: bool  \<comment> \<open>\<open>CUDAExtension\<close> rather than \<open>CppExtension\<close>\<close>
  ext_name :: string
  ext_sources :: "string list"
  include_dirs :: "string list"
  libraries :: "string list option"
  compile_args_cxx :: "string list"
  compile_args_nvcc :: "string list option"
  extra_link_args :: "string list"

text \<open>\<open>OpBuilder.builder\<close>\<close>

definition op_builder :: "probes \<Rightarrow> state \<Rightarrow> (exn + extension) \<times> state" where
  "op_builder P s =
     (let sources = map (atorch_src_path P) (op_sources s);
          include_paths = map (atorch_src_path P) (include_paths s)
      in and_then (cxx_args P s)
           (\<lambda>cx s1.
              (Inr \<lparr>cuda_extension = False,
                    ext_name = op_absolute_name s1,
                    ext_sources = strip_empty_entries sources,
                    include_dirs = strip_empty_entries include_paths,
                    libraries = None,
                    compile_args_cxx = strip_empty_entries cx,
                    compile_args_nvcc = None,
                    extra_link_args = strip_empty_entries (extra_ldflags s1)\<rparr>, s1)))"

text \<open>\<open>CUDAOpBuilder.builder\<close>\<close>

definition cuda_builder :: "probes \<Rightarrow> state \<Rightarrow> (exn + extension) \<times> state" where
  "cuda_builder P s =
     (let s1 = set_build_for_cpu P s in
      and_then
        (if build_for_cpu s1 then
           and_then (cxx_args P s1) (\<lambda>cx s2. (Inr (strip_empty_entries cx, None), s2))
         else
           and_then (cxx_args P s1)
             (\<lambda>cx s2.
                and_then (nvcc_args P s2)
                  (\<lambda>nv s3. (Inr (strip_empty_entries cx, Some (strip_empty_entries nv)), s3))))
        (\<lambda>compile_args s3.
           let cxx = fst compile_args @ bf16_flags s3;
               sources = map (atorch_src_path P) (op_sources s3);
               include_paths = map (atorch_src_path P) (include_paths s3)
           in (Inr \<lparr>cuda_extension = \<not> build_for_cpu s3,
                     ext_name = op_absolute_name s3,
                     ext_sources = strip_empty_entries sources,
                     include_dirs = strip_empty_entries include_paths,
                     libraries = Some (strip_empty_entries (libraries_args P s3)),
                     compile_args_cxx = cxx,
                     compile_args_nvcc = snd compile_args,
                     extra_link_args = strip_empty_entries (extra_ldflags s3)\<rparr>, s3)))"

definition builder :: "probes \<Rightarrow> state \<Rightarrow> (exn + extension) \<times> state" where
  "builder P s = (case cls s of OpBuilder \<Rightarrow> op_builder P s | _ \<Rightarrow> cuda_builder P s)"

section \<open>The smoke test \<open>has_function\<close>\<close>













section \<open>A sample machine and builder\<close>

text \<open>\<open>posixpath.join\<close> of two components.\<close>

definition posix_join :: "string \<Rightarrow> string \<Rightarrow> string" where
  "posix_join a b =
     (if prefix ''/'' b then b else if a = [] \<or> suffix ''/'' a then a @ b else a @ ''/'' @ b)"

text \<open>A Linux machine with CUDA 11.2 installed, a torch built for CUDA 11.0, three
  visible devices of two capabilities, and every probe answering.\<close>

definition example_probes :: probes where
  "example_probes =
     \<lparr>cuda_home = Some ''/usr/local/cuda'', nvcc_release = Inr (11, 2),
      torch_version_cuda = Some ''11.0'', win32 = False, device_caps = [(8, 0), (9, 0), (8, 0)],
      cpuinfo_import = None,
      get_cpu_info = Inr [''arch'' \<mapsto> PyStr ''X86_64'',
                          ''flags'' \<mapsto> PyList [PyStr ''sse2'', PyStr ''avx2'']],
      type_ok = (\<lambda>c. c = ''lscpu''),
      lscpu_text = Inr ''vendor id: genuineintel flags: avx2 avx512f'',
      ninja_import = None, path_isabs = prefix ''/'', path_join = posix_join,
      package_root = ''/opt/atorch'', os_fail = (\<lambda>k. None),
      shlex_split = (\<lambda>v. Inr (filter (\<lambda>w. w \<noteq> []) (split_on CHR '' '' v))),
      mkdtemp_name = ''/tmp/tmpab12'',
      load_result = Inr ''cpu_adam'', build_duration = ''12.5''\<rparr>"

definition example_state :: state where
  "example_state =
     \<lparr>name = ''cpu_adam'', cls = TorchCPUOpBuilder, op_sources = [''csrc/adam/cpu_adam.cpp''],
      op_absolute_name = ''atorch.ops.adam.cpu_adam_op'', jit_mode = False, build_for_cpu = False,
      enable_bf16 = False, error_log = None, environ = Map.empty, stdout = [], logged = [],
      stderr_fd = ''/dev/pts/0'', open_files = {}, dirs = {''/tmp''}, completed = [],
      load_calls = []\<rparr>"

section \<open>What the flag methods leave alone\<close>

text \<open>The flag-building methods print, log and set fields of the builder; they do not
  touch the environment variables, the files, or the record of external calls.\<close>

definition same_process :: "state \<Rightarrow> state \<Rightarrow> bool" where
  "same_process s s' =
     (environ s' = environ s \<and> load_calls s' = load_calls s \<and> completed s' = completed s
      \<and> stderr_fd s' = stderr_fd s \<and> open_files s' = open_files s \<and> dirs s' = dirs s
      \<and> cls s' = cls s \<and> name s' = name s)"

section \<open>Flag lists without empty entries\<close>

text \<open>The calls of \<open>load\<close> made between two states.\<close>

definition new_load_calls :: "state \<Rightarrow> state \<Rightarrow> load_call list" where
  "new_load_calls s s' = drop (length (load_calls s)) (load_calls s')"

definition no_empty_call :: "load_call \<Rightarrow> bool" where
  "no_empty_call c =
     ([] \<notin> set (load_sources c) \<and> [] \<notin> set (extra_include_paths c)
      \<and> [] \<notin> set (extra_cflags c) \<and> [] \<notin> set (extra_cuda_cflags c)
      \<and> [] \<notin> set (load_extra_ldflags c))"

definition no_empty_extension :: "extension \<Rightarrow> bool" where
  "no_empty_extension x =
     ([] \<notin> set (ext_sources x) \<and> [] \<notin> set (include_dirs x)
      \<and> (case libraries x of None \<Rightarrow> True | Some l \<Rightarrow> [] \<notin> set l)
      \<and> [] \<notin> set (compile_args_cxx x)
      \<and> (case compile_args_nvcc x of None \<Rightarrow> True | Some nv \<Rightarrow> [] \<notin> set nv)
      \<and> [] \<notin> set (extra_link_args x))"

section \<open>SIMD selection as the specification words it\<close>




section \<open>What one run of \<open>has_function\<close> did\<close>



section \<open>Evaluation lemmas\<close>






section \<open>CUDA version check\<close>




section \<open>Frame lemmas\<close>

lemma same_process_refl [simp]: "same_process s s"
  by (simp add: same_process_def)

lemma same_process_trans: "same_process s s1 \<Longrightarrow> same_process s1 s2 \<Longrightarrow> same_process s s2"
  by (simp add: same_process_def)

lemma same_process_print [simp]: "same_process s (print m s1) = same_process s s1"
  by (simp add: same_process_def print_def)

lemma same_process_logger_error [simp]: "same_process s (logger_error m s1) = same_process s s1"
  by (simp add: same_process_def logger_error_def)

lemma same_process_warning [simp]: "same_process s (warning m s1) = same_process s s1"
  by (simp add: same_process_def warning_def print_def)

lemma same_process_fields [simp]:
  "same_process s (s1\<lparr>enable_bf16 := b\<rparr>) = same_process s s1"
  "same_process s (s1\<lparr>build_for_cpu := b\<rparr>) = same_process s s1"
  "same_process s (s1\<lparr>jit_mode := b\<rparr>) = same_process s s1"
  by (simp_all add: same_process_def)

lemma same_process_and_then:
  assumes "same_process s (snd r)"
    and "\<And>a s1. same_process s s1 \<Longrightarrow> same_process s (snd (f a s1))"
  shows "same_process s (snd (and_then r f))"
  using assms by (cases r) (auto simp add: and_then_def split: sum.splits)

lemma assert_no_cuda_mismatch_same:
  "same_process s s1 \<Longrightarrow> same_process s (snd (assert_no_cuda_mismatch P s1))"
  by (simp add: assert_no_cuda_mismatch_def Let_def split: sum.splits option.splits)

lemma set_build_for_cpu_same:
  "same_process s s1 \<Longrightarrow> same_process s (set_build_for_cpu P s1)"
  using assert_no_cuda_mismatch_same [of s s1 P]
  by (cases "assert_no_cuda_mismatch P s1") (auto simp add: set_build_for_cpu_def split: sum.splits)

lemma is_cuda_enable_same:
  "same_process s s1 \<Longrightarrow> same_process s (snd (is_cuda_enable P s1))"
  using assert_no_cuda_mismatch_same [of s s1 P]
  by (cases "assert_no_cuda_mismatch P s1") (auto simp add: is_cuda_enable_def split: sum.splits)

lemma command_exists_same:
  "same_process s s1 \<Longrightarrow> same_process s (snd (command_exists P c s1))"
  by (simp add: command_exists_def Let_def)

lemma backup_cpuinfo_same:
  "same_process s s1 \<Longrightarrow> same_process s (snd (backup_cpuinfo P s1))"
  using command_exists_same [of s s1 P "''lscpu''"]
  by (cases "command_exists P ''lscpu'' s1") (auto simp add: backup_cpuinfo_def Let_def split: sum.splits)

lemma call_get_cpu_info_same:
  "same_process s s1 \<Longrightarrow> same_process s (snd (call_get_cpu_info P b s1))"
  by (auto simp add: call_get_cpu_info_def backup_cpuinfo_same split: sum.splits)

lemma probe_cpu_info_same:
  "same_process s s1 \<Longrightarrow> same_process s (snd (probe_cpu_info P who s1))"
  by (auto simp add: probe_cpu_info_def call_get_cpu_info_same backup_cpuinfo_same
      intro!: same_process_and_then split: option.splits)

lemma cpu_arch_same:
  "same_process s s1 \<Longrightarrow> same_process s (snd (cpu_arch P s1))"
  by (auto simp add: cpu_arch_def probe_cpu_info_same
      intro!: same_process_and_then split: option.splits sum.splits)

lemma simd_width_same:
  "same_process s s1 \<Longrightarrow> same_process s (snd (simd_width P s1))"
  by (auto simp add: simd_width_def probe_cpu_info_same
      intro!: same_process_and_then split: option.splits sum.splits)

lemma torch_cpu_cxx_args_same:
  "same_process s s1 \<Longrightarrow> same_process s (snd (torch_cpu_cxx_args P s1))"
  unfolding torch_cpu_cxx_args_def
  by (intro same_process_and_then)
     (auto simp add: cpu_arch_same simd_width_same is_cuda_enable_same Let_def
       split: option.splits prod.splits dest: is_cuda_enable_same [where P = P])

lemma cxx_args_same:
  "same_process s s1 \<Longrightarrow> same_process s (snd (cxx_args P s1))"
  by (simp add: cxx_args_def torch_cpu_cxx_args_same split: builder_class.splits)

lemma select_ccs_same:
  "same_process s s1 \<Longrightarrow> same_process s (snd (select_ccs P a s1))"
  by (simp add: select_ccs_def Let_def split: option.splits sum.splits)

lemma cc_loop_same:
  "same_process s s1 \<Longrightarrow> same_process s (snd (cc_loop ccs args s1))"
  by (induction ccs args s1 rule: cc_loop.induct) (auto simp add: Let_def split: sum.splits)

lemma compute_capability_args_same:
  "same_process s s1 \<Longrightarrow> same_process s (snd (compute_capability_args P a s1))"
  unfolding compute_capability_args_def
  by (intro same_process_and_then) (auto simp add: select_ccs_same cc_loop_same Let_def)

lemma cuda_nvcc_args_same:
  "same_process s s1 \<Longrightarrow> same_process s (snd (cuda_nvcc_args P s1))"
  by (auto simp add: cuda_nvcc_args_def Let_def compute_capability_args_same
      intro!: same_process_and_then split: sum.splits)

lemma nvcc_args_same:
  "same_process s s1 \<Longrightarrow> same_process s (snd (nvcc_args P s1))"
  by (simp add: nvcc_args_def cuda_nvcc_args_same split: builder_class.splits)

section \<open>Flag lists\<close>

lemma strip_empty_entries_no_empty [simp]: "[] \<notin> set (strip_empty_entries args)"
  by (simp add: strip_empty_entries_def)

lemma bf16_flags_no_empty [simp]: "[] \<notin> set (bf16_flags s)"
  by (simp add: bf16_flags_def)

lemma count_list_filter: "Q x \<Longrightarrow> count_list (filter Q xs) x = count_list xs x"
  by (induction xs) auto

lemma and_then_eq_Inr:
  "and_then r f = (Inr b, s') \<longleftrightarrow> (\<exists>a s1. r = (Inr a, s1) \<and> f a s1 = (Inr b, s'))"
  by (cases r; cases "fst r") (auto simp add: and_then_def)

lemma and_then_eq_Inl:
  "and_then r f = (Inl e, s') \<longleftrightarrow>
     (r = (Inl e, s') \<or> (\<exists>a s1. r = (Inr a, s1) \<and> f a s1 = (Inl e, s')))"
  by (cases r; cases "fst r") (auto simp add: and_then_def)

lemma returns_iff: "returns r \<longleftrightarrow> (\<exists>a s. r = (Inr a, s))"
  by (cases r; cases "fst r") (auto simp add: returns_def)

lemma jit_flags_same:
  "same_process s s1 \<Longrightarrow> same_process s (snd (jit_flags P s1))"
  unfolding jit_flags_def
  by (intro same_process_and_then) (auto simp add: nvcc_args_same cxx_args_same Let_def)

lemma jit_flags_no_empty:
  assumes "jit_flags P s = (Inr flags, s')"
  shows "[] \<notin> set (fst flags) \<and> [] \<notin> set (snd flags)"
  using assms by (auto simp add: jit_flags_def and_then_eq_Inr Let_def split: if_splits)

lemma stash_arch_list_load_calls: "load_calls (snd (stash_arch_list s)) = load_calls s"
  by (simp add: stash_arch_list_def split: option.splits)

lemma reset_arch_list_load_calls [simp]: "load_calls (reset_arch_list t s) = load_calls s"
  by (simp add: reset_arch_list_def split: option.splits)

lemma load_calls_print [simp]: "load_calls (print m s) = load_calls s"
  by (simp add: print_def)

lemma jit_load_new_calls:
  "\<forall>c \<in> set (new_load_calls s (snd (jit_load P verbose s))). no_empty_call c"
proof (cases "ninja_import P")
  case (Some e)
  then show ?thesis by (simp add: jit_load_def is_compatible_def new_load_calls_def)
next
  case None
  define s2 where "s2 = (if isinstance_CUDAOpBuilder s then set_build_for_cpu P s else s)\<lparr>jit_mode := True\<rparr>"
  obtain t s3 where st: "stash_arch_list s2 = (t, s3)" by (cases "stash_arch_list s2")
  obtain r s4 where jf: "jit_flags P s3 = (r, s4)" by (cases "jit_flags P s3")
  have "load_calls s2 = load_calls s"
    using set_build_for_cpu_same [of s s P] by (simp add: s2_def same_process_def)
  moreover have "load_calls s3 = load_calls s2"
    using stash_arch_list_load_calls [of s2] st by simp
  moreover have "load_calls s4 = load_calls s3"
    using jit_flags_same [of s3 s3 P] jf by (simp add: same_process_def)
  ultimately have l4: "load_calls s4 = load_calls s" by simp
  show ?thesis
  proof (cases r)
    case (Inl e)
    then show ?thesis
      using None st jf l4
      by (simp add: jit_load_def is_compatible_def Let_def s2_def [symmetric] and_then_def new_load_calls_def)
  next
    case (Inr flags)
    then show ?thesis
      using None st jf l4 jit_flags_no_empty [of P s3 flags s4]
      by (auto simp add: jit_load_def is_compatible_def Let_def s2_def [symmetric] and_then_def
          new_load_calls_def load_def no_empty_call_def split: sum.splits)
  qed
qed

lemma builder_no_empty:
  assumes "builder P s = (Inr x, s')"
  shows "no_empty_extension x"
  using assms
  by (auto simp add: builder_def op_builder_def cuda_builder_def and_then_eq_Inr Let_def
      no_empty_extension_def split: builder_class.splits if_splits)

text \<open>
  The claim C7 as stated fails: nothing removes repeated flags.  On the sample machine
  the C++ flag list that \<open>jit_load\<close> of a \<open>TorchCPUOpBuilder\<close> passes to \<open>load\<close>
  carries \<open>-g\<close> twice: once from \<open>CUDAOpBuilder.cxx_args\<close> and once from
  \<open>TorchCPUOpBuilder.cxx_args\<close> itself.
\<close>

theorem cxx_flag_list_repeats_counterexample:
  "map extra_cflags (new_load_calls example_state (snd (jit_load example_probes True example_state)))
     = [[''-O3'', ''-std=c++17'', ''-g'', ''-Wno-reorder'', ''-L/usr/local/cuda/lib64'',
         ''-lcudart'', ''-lcublas'', ''-g'', ''-march=native'', ''-fopenmp'', ''-D__AVX256__'',
         ''-D__ENABLE_CUDA__'', ''-DBF16_AVAILABLE'']]
   \<and> fst (cxx_args example_probes example_state)
     = Inr [''-O3'', ''-std=c++17'', ''-g'', ''-Wno-reorder'', ''-L/usr/local/cuda/lib64'',
         ''-lcudart'', ''-lcublas'', ''-g'', ''-march=native'', ''-fopenmp'', ''-D__AVX256__'',
         ''-D__ENABLE_CUDA__'']
   \<and> \<not> distinct (strip_empty_entries
         [''-O3'', ''-std=c++17'', ''-g'', ''-Wno-reorder'', ''-L/usr/local/cuda/lib64'',
         ''-lcudart'', ''-lcublas'', ''-g'', ''-march=native'', ''-fopenmp'', ''-D__AVX256__'',
         ''-D__ENABLE_CUDA__''])"
  by code_simp

text \<open>
  Claim C7, amended.  \<open>strip_empty_entries\<close> returns exactly the non-empty elements of
  its input, in order and as often as they occur there (nothing is deduplicated);
  every list that \<open>jit_load\<close> passes to \<open>load\<close>, and every list of the extension
  object that \<open>builder\<close> returns, is free of empty entries.
\<close>

theorem strip_empty_entries_keeps_nonempty:
  "strip_empty_entries args = filter (\<lambda>x. x \<noteq> []) args
   \<and> (\<forall>x. x \<noteq> [] \<longrightarrow> count_list (strip_empty_entries args) x = count_list args x)
   \<and> (\<forall>c \<in> set (new_load_calls s (snd (jit_load P verbose s))). no_empty_call c)
   \<and> (\<forall>x s'. builder P s = (Inr x, s') \<longrightarrow> no_empty_extension x)"
proof -
  have "strip_empty_entries args = filter (\<lambda>x. x \<noteq> []) args"
    by (simp add: strip_empty_entries_def)
  moreover have "\<forall>x. x \<noteq> [] \<longrightarrow> count_list (strip_empty_entries args) x = count_list args x"
    by (simp add: strip_empty_entries_def count_list_filter)
  ultimately show ?thesis
    using jit_load_new_calls [of s P verbose] builder_no_empty [of P s] by blast
qed

theorem strip_empty_entries_keeps_nonempty_witness:
  "strip_empty_entries [''-O3'', [], ''-g'', [], ''-g''] = [''-O3'', ''-g'', ''-g'']
   \<and> count_list (strip_empty_entries [''-O3'', [], ''-g'', [], ''-g'']) ''-g'' = 2
   \<and> length (new_load_calls example_state (snd (jit_load example_probes True example_state))) = 1
   \<and> no_empty_call (hd (new_load_calls example_state (snd (jit_load example_probes True example_state))))
   \<and> (\<exists>x s'. builder example_probes example_state = (Inr x, s') \<and> no_empty_extension x)"
proof -
  note t = strip_empty_entries_keeps_nonempty
             [of "[''-O3'', [], ''-g'', [], ''-g'']" example_state example_probes True]
  have len: "length (new_load_calls example_state (snd (jit_load example_probes True example_state))) = 1"
    by code_simp
  then have mem: "hd (new_load_calls example_state (snd (jit_load example_probes True example_state)))
      \<in> set (new_load_calls example_state (snd (jit_load example_probes True example_state)))"
    by (cases "new_load_calls example_state (snd (jit_load example_probes True example_state))") simp_all
  have "returns (builder example_probes example_state)"
    by code_simp
  then have ret: "\<exists>x s'. builder example_probes example_state = (Inr x, s')"
    by (simp add: returns_iff)
  have g: "''-g'' \<noteq> []" by simp
  have c2: "count_list [''-O3'', [], ''-g'', [], ''-g''] ''-g'' = 2" by simp
  have f: "filter (\<lambda>x. x \<noteq> []) [''-O3'', [], ''-g'', [], ''-g''] = [''-O3'', ''-g'', ''-g'']" by simp
  show ?thesis using t len mem ret g c2 f by metis
qed

section \<open>Compute capability selection\<close>

lemma device_ccs_nil: "device_caps P = [] \<Longrightarrow> device_ccs P = []"
  by (simp add: device_ccs_def)

text \<open>
  Claim C9.  In \<open>jit_mode\<close> with no visible CUDA device, \<open>compute_capability_args\<close>
  does not return: it raises the \<open>IndexError\<close> of \<open>ccs[-1]\<close> on the empty list, with
  the state unchanged, and so never reaches the \<open>RuntimeError\<close> that guards the empty
  list after filtering.
\<close>

theorem compute_capability_args_no_devices:
  assumes "jit_mode s" and "device_caps P = []"
  shows "compute_capability_args P archs s = (Inl (Exn IndexError ''list index out of range''), s)
         \<and> \<not> returns (compute_capability_args P archs s)
         \<and> (\<forall>m. fst (compute_capability_args P archs s) \<noteq> Inl (Exn RuntimeError m))"
  using assms
  by (simp add: compute_capability_args_def select_ccs_def device_ccs_nil tag_last_ptx_def
      and_then_def returns_def)

theorem compute_capability_args_no_devices_witness:
  "jit_mode (example_state\<lparr>jit_mode := True\<rparr>)
   \<and> device_caps (example_probes\<lparr>device_caps := []\<rparr>) = []
   \<and> compute_capability_args (example_probes\<lparr>device_caps := []\<rparr>) None
        (example_state\<lparr>jit_mode := True\<rparr>)
      = (Inl (Exn IndexError ''list index out of range''), example_state\<lparr>jit_mode := True\<rparr>)"
proof -
  have a: "jit_mode (example_state\<lparr>jit_mode := True\<rparr>)" by simp
  have b: "device_caps (example_probes\<lparr>device_caps := []\<rparr>) = []" by simp
  show ?thesis
    using compute_capability_args_no_devices [OF a b, of None] a b by blast
qed

section \<open>Capability list outside jit mode\<close>

lemma split_on_not_nil [simp]: "split_on c xs \<noteq> []"
  by (induction xs) (auto split: list.splits)

text \<open>
  Claim C3.  Outside \<open>jit_mode\<close>: when \<open>TORCH_CUDA_ARCH_LIST\<close> is set to \<open>v\<close>, the
  capability list is \<open>v\<close> with every space replaced by \<open>;\<close> and then split at \<open>;\<close>,
  whatever the argument \<open>cross_compile_archs\<close> is, and the flags are built from that
  list; when the variable is unset and no argument is given, the list is the split of
  what \<open>get_default_compute_capabilities\<close> returns.
\<close>

theorem compute_capability_args_env_priority:
  assumes "\<not> jit_mode s"
  shows "(environ s ''TORCH_CUDA_ARCH_LIST'' = Some v \<longrightarrow>
            fst (select_ccs P archs s) = Inr (split_on CHR '';'' (replace_char CHR '' '' CHR '';'' v))
            \<and> compute_capability_args P archs s
                = cc_loop (split_on CHR '';'' (replace_char CHR '' '' CHR '';'' v)) []
                    ((snd (select_ccs P archs s))\<lparr>enable_bf16 := True\<rparr>))
         \<and> (environ s ''TORCH_CUDA_ARCH_LIST'' = None \<longrightarrow>
              fst (select_ccs P None s)
                = (case get_default_compute_capabilities P of
                     Inl e \<Rightarrow> Inl e
                   | Inr d \<Rightarrow> Inr (split_on CHR '';'' d))
              \<and> (\<forall>d. get_default_compute_capabilities P = Inr d \<longrightarrow>
                    compute_capability_args P None s
                      = cc_loop (split_on CHR '';'' d) [] (s\<lparr>enable_bf16 := True\<rparr>)))"
  using assms
  by (auto simp add: compute_capability_args_def select_ccs_def and_then_def filter_ccs_def Let_def
      split: sum.splits)

theorem compute_capability_args_env_priority_witness:
  "\<not> jit_mode example_state
   \<and> fst (select_ccs example_probes (Some ''7.5'')
            (example_state\<lparr>environ := [''TORCH_CUDA_ARCH_LIST'' \<mapsto> ''6.0 6.1;8.6+PTX'']\<rparr>))
       = Inr [''6.0'', ''6.1'', ''8.6+PTX'']
   \<and> fst (compute_capability_args example_probes (Some ''7.5'')
            (example_state\<lparr>environ := [''TORCH_CUDA_ARCH_LIST'' \<mapsto> ''6.0 6.1;8.6+PTX'']\<rparr>))
       = Inr [''-gencode=arch=compute_60,code=sm_60'', ''-gencode=arch=compute_61,code=sm_61'',
              ''-gencode=arch=compute_86,code=sm_86'', ''-gencode=arch=compute_86,code=compute_86'']
   \<and> get_default_compute_capabilities example_probes = Inr ''7.0;8.0''
   \<and> fst (select_ccs example_probes None example_state) = Inr [''7.0'', ''8.0'']
   \<and> fst (compute_capability_args example_probes None example_state)
       = Inr [''-gencode=arch=compute_70,code=sm_70'', ''-gencode=arch=compute_80,code=sm_80'']"
proof -
  let ?s = "example_state\<lparr>environ := [''TORCH_CUDA_ARCH_LIST'' \<mapsto> ''6.0 6.1;8.6+PTX'']\<rparr>"
  have nj: "\<not> jit_mode example_state" "\<not> jit_mode ?s"
    by (simp_all add: example_state_def)
  have set_v: "environ ?s ''TORCH_CUDA_ARCH_LIST'' = Some ''6.0 6.1;8.6+PTX''"
    by simp
  have unset: "environ example_state ''TORCH_CUDA_ARCH_LIST'' = None"
    by (simp add: example_state_def)
  have sp: "split_on CHR '';'' (replace_char CHR '' '' CHR '';'' ''6.0 6.1;8.6+PTX'')
              = [''6.0'', ''6.1'', ''8.6+PTX'']"
    by code_simp
  have lp: "fst (cc_loop [''6.0'', ''6.1'', ''8.6+PTX''] [] st) =
      Inr [''-gencode=arch=compute_60,code=sm_60'', ''-gencode=arch=compute_61,code=sm_61'',
           ''-gencode=arch=compute_86,code=sm_86'', ''-gencode=arch=compute_86,code=compute_86'']" for st
    by (simp add: int_of_char_def gencode_flags_def Let_def suffix_to_prefix)
  have d: "get_default_compute_capabilities example_probes = Inr ''7.0;8.0''"
    by code_simp
  have sd: "split_on CHR '';'' ''7.0;8.0'' = [''7.0'', ''8.0'']"
    by code_simp
  have ld: "fst (cc_loop [''7.0'', ''8.0''] [] st) =
      Inr [''-gencode=arch=compute_70,code=sm_70'', ''-gencode=arch=compute_80,code=sm_80'']" for st
    by (simp add: int_of_char_def gencode_flags_def Let_def suffix_to_prefix)
  note t1 = compute_capability_args_env_priority
              [OF nj(2), of "''6.0 6.1;8.6+PTX''" example_probes "Some ''7.5''"]
  note t2 = compute_capability_args_env_priority [OF nj(1), of "''x''" example_probes None]
  have a: "fst (select_ccs example_probes (Some ''7.5'') ?s) = Inr [''6.0'', ''6.1'', ''8.6+PTX'']"
    using t1 set_v sp by metis
  have b: "fst (compute_capability_args example_probes (Some ''7.5'') ?s) =
      Inr [''-gencode=arch=compute_60,code=sm_60'', ''-gencode=arch=compute_61,code=sm_61'',
           ''-gencode=arch=compute_86,code=sm_86'', ''-gencode=arch=compute_86,code=compute_86'']"
    using t1 set_v sp lp by metis
  have c: "fst (select_ccs example_probes None example_state) = Inr [''7.0'', ''8.0'']"
    using t2 unset d sd by (metis sum.simps(6))
  have e: "fst (compute_capability_args example_probes None example_state) =
      Inr [''-gencode=arch=compute_70,code=sm_70'', ''-gencode=arch=compute_80,code=sm_80'']"
    using t2 unset d sd ld by metis
  show ?thesis using nj(1) a b d c e by blast
qed

section \<open>bf16\<close>



















section \<open>SIMD width\<close>





section \<open>Failing CPU probes\<close>

lemma command_exists_lscpu_missing:
  assumes "\<not> type_ok P ''lscpu''"
  shows "command_exists P ''lscpu'' s =
           (False, print (WARNING @ '' '' @ name s @ '' requires the '' @ CHR 0x27 # ''lscpu''
                          @ CHR 0x27 # '' command, but it does not exist!'') s)"
  using assms by (simp add: command_exists_def)

lemma backup_cpuinfo_missing:
  assumes "\<not> type_ok P ''lscpu''"
  shows "fst (backup_cpuinfo P s) = Inr None
         \<and> (\<exists>m1 m2. stdout (snd (backup_cpuinfo P s)) = stdout s @ [WARNING @ m1, WARNING @ m2])"
  using assms
  by (simp add: backup_cpuinfo_def command_exists_lscpu_missing warning_def print_def)

lemma probe_cpu_info_both_fail:
  assumes "\<not> type_ok P ''lscpu''"
    and "(\<exists>e. cpuinfo_import P = Some e \<and> is_ImportError e)
         \<or> (cpuinfo_import P = None \<and> (\<exists>e. get_cpu_info P = Inl e \<and> is_Exception e))"
  shows "fst (probe_cpu_info P who s) = Inr None
         \<and> (\<exists>ms. stdout (snd (probe_cpu_info P who s)) = stdout s @ map ((@) WARNING) ms \<and> ms \<noteq> [])"
  using assms(2)
proof
  assume "\<exists>e. cpuinfo_import P = Some e \<and> is_ImportError e"
  then obtain e where e: "cpuinfo_import P = Some e" "is_ImportError e" by blast
  let ?s1 = "logger_error (''Error '' @ who @ '': '' @ exn_str e) s"
  from backup_cpuinfo_missing [OF assms(1), of ?s1]
  obtain m1 m2 where "fst (backup_cpuinfo P ?s1) = Inr None"
    and "stdout (snd (backup_cpuinfo P ?s1)) = stdout ?s1 @ [WARNING @ m1, WARNING @ m2]"
    by blast
  then have "fst (probe_cpu_info P who s) = Inr None
    \<and> stdout (snd (probe_cpu_info P who s)) = stdout s @ map ((@) WARNING) [m1, m2]"
    using e by (simp add: probe_cpu_info_def and_then_def case_prod_beta logger_error_def)
  then show ?thesis by blast
next
  assume "cpuinfo_import P = None \<and> (\<exists>e. get_cpu_info P = Inl e \<and> is_Exception e)"
  then obtain e where i: "cpuinfo_import P = None" and e: "get_cpu_info P = Inl e" "is_Exception e"
    by blast
  let ?s1 = "warning (py_cpuinfo_failed_msg s e) s"
  from backup_cpuinfo_missing [OF assms(1), of ?s1]
  obtain m1 m2 where "fst (backup_cpuinfo P ?s1) = Inr None"
    and "stdout (snd (backup_cpuinfo P ?s1)) = stdout ?s1 @ [WARNING @ m1, WARNING @ m2]"
    by blast
  then have "fst (probe_cpu_info P who s) = Inr None
    \<and> stdout (snd (probe_cpu_info P who s))
        = stdout s @ map ((@) WARNING) ['' '' @ py_cpuinfo_failed_msg s e, m1, m2]"
    using i e by (simp add: probe_cpu_info_def call_get_cpu_info_def warning_def print_def)
  then show ?thesis by blast
qed

text \<open>
  Claim C5.  When \<open>py-cpuinfo\<close> cannot be imported, or its \<open>get_cpu_info\<close> raises an
  \<open>Exception\<close>, and \<open>lscpu\<close> is not found (so that the backup returns \<open>None\<close>), then
  \<open>cpu_arch\<close> returns \<open>-march=native\<close> and \<open>simd_width\<close> returns \<open>-D__SCALAR__\<close>;
  neither raises, and each has printed at least one line, every one of them a warning.
\<close>

theorem cpu_probes_fail_defaults:
  assumes "\<not> type_ok P ''lscpu''"
    and "(\<exists>e. cpuinfo_import P = Some e \<and> is_ImportError e)
         \<or> (cpuinfo_import P = None \<and> (\<exists>e. get_cpu_info P = Inl e \<and> is_Exception e))"
  shows "fst (cpu_arch P s) = Inr ''-march=native''
         \<and> fst (simd_width P s) = Inr ''-D__SCALAR__''
         \<and> (\<exists>ms. stdout (snd (cpu_arch P s)) = stdout s @ map ((@) WARNING) ms \<and> ms \<noteq> [])
         \<and> (\<exists>ms. stdout (snd (simd_width P s)) = stdout s @ map ((@) WARNING) ms \<and> ms \<noteq> [])"
proof -
  have "fst (cpu_arch P s) = Inr ''-march=native''
        \<and> snd (cpu_arch P s) = snd (probe_cpu_info P ''cpu_arch'' s)"
    using probe_cpu_info_both_fail [OF assms, of "''cpu_arch''" s]
    by (cases "probe_cpu_info P ''cpu_arch'' s") (simp add: cpu_arch_def and_then_def)
  moreover have "fst (simd_width P s) = Inr ''-D__SCALAR__''
        \<and> snd (simd_width P s) = snd (probe_cpu_info P ''simd_width'' s)"
    using probe_cpu_info_both_fail [OF assms, of "''simd_width''" s]
    by (cases "probe_cpu_info P ''simd_width'' s") (simp add: simd_width_def and_then_def)
  ultimately show ?thesis
    using probe_cpu_info_both_fail [OF assms, of "''cpu_arch''" s]
      probe_cpu_info_both_fail [OF assms, of "''simd_width''" s]
    by simp
qed

theorem cpu_probes_fail_defaults_witness:
  "fst (cpu_arch (example_probes\<lparr>type_ok := (\<lambda>c. False),
            cpuinfo_import := Some (Exn ModuleNotFoundError ''No module named cpuinfo'')\<rparr>)
          example_state) = Inr ''-march=native''
   \<and> fst (simd_width (example_probes\<lparr>type_ok := (\<lambda>c. False),
            cpuinfo_import := Some (Exn ModuleNotFoundError ''No module named cpuinfo'')\<rparr>)
          example_state) = Inr ''-D__SCALAR__''
   \<and> fst (cpu_arch (example_probes\<lparr>type_ok := (\<lambda>c. False),
            get_cpu_info := Inl (Exn (OtherException ''OSError'') ''/proc/cpuinfo'')\<rparr>)
          example_state) = Inr ''-march=native''
   \<and> fst (simd_width (example_probes\<lparr>type_ok := (\<lambda>c. False),
            get_cpu_info := Inl (Exn (OtherException ''OSError'') ''/proc/cpuinfo'')\<rparr>)
          example_state) = Inr ''-D__SCALAR__''
   \<and> stdout (snd (simd_width (example_probes\<lparr>type_ok := (\<lambda>c. False),
            cpuinfo_import := Some (Exn ModuleNotFoundError ''No module named cpuinfo'')\<rparr>)
          example_state)) \<noteq> []"
proof -
  let ?P1 = "example_probes\<lparr>type_ok := (\<lambda>c. False),
            cpuinfo_import := Some (Exn ModuleNotFoundError ''No module named cpuinfo'')\<rparr>"
  let ?P2 = "example_probes\<lparr>type_ok := (\<lambda>c. False),
            get_cpu_info := Inl (Exn (OtherException ''OSError'') ''/proc/cpuinfo'')\<rparr>"
  have n1: "\<not> type_ok ?P1 ''lscpu''" and n2: "\<not> type_ok ?P2 ''lscpu''"
    by simp_all
  have f1: "(\<exists>e. cpuinfo_import ?P1 = Some e \<and> is_ImportError e)
         \<or> (cpuinfo_import ?P1 = None \<and> (\<exists>e. get_cpu_info ?P1 = Inl e \<and> is_Exception e))"
    by simp
  have f2: "(\<exists>e. cpuinfo_import ?P2 = Some e \<and> is_ImportError e)
         \<or> (cpuinfo_import ?P2 = None \<and> (\<exists>e. get_cpu_info ?P2 = Inl e \<and> is_Exception e))"
    by (simp add: example_probes_def)
  note t1 = cpu_probes_fail_defaults [OF n1 f1, of example_state]
  note t2 = cpu_probes_fail_defaults [OF n2 f2, of example_state]
  from t1 obtain ms where
    "stdout (snd (simd_width ?P1 example_state)) = stdout example_state @ map ((@) WARNING) ms"
    and "ms \<noteq> []"
    by blast
  then have "stdout (snd (simd_width ?P1 example_state)) \<noteq> []"
    by simp
  with t1 t2 show ?thesis by blast
qed

section \<open>The smoke test\<close>












section \<open>The arch list around the build\<close>

lemma stash_arch_list_environ:
  "fst (stash_arch_list s) = environ s ''TORCH_CUDA_ARCH_LIST''
   \<and> environ (snd (stash_arch_list s))
       = (case environ s ''TORCH_CUDA_ARCH_LIST'' of
            None \<Rightarrow> environ s
          | Some _ \<Rightarrow> (environ s)(''TORCH_CUDA_ARCH_LIST'' \<mapsto> []))
   \<and> load_calls (snd (stash_arch_list s)) = load_calls s"
  by (simp add: stash_arch_list_def split: option.splits)

lemma reset_arch_list_environ:
  "environ (reset_arch_list t s)
     = (case t of
          None \<Rightarrow> environ s
        | Some v \<Rightarrow> if v \<noteq> [] then (environ s)(''TORCH_CUDA_ARCH_LIST'' \<mapsto> v) else environ s)"
  by (simp add: reset_arch_list_def split: option.splits)

lemma environ_print [simp]: "environ (print m s) = environ s"
  by (simp add: print_def)

text \<open>The shape of every run of \<open>jit_load\<close> that gets past the import of \<open>ninja\<close>.\<close>

lemma jit_load_run:
  assumes "ninja_import P = None"
  obtains (flags_raise) e sa where
      "jit_load P verbose s = (Inl e, sa)"
      "environ sa = (case environ s ''TORCH_CUDA_ARCH_LIST'' of
                       None \<Rightarrow> environ s
                     | Some _ \<Rightarrow> (environ s)(''TORCH_CUDA_ARCH_LIST'' \<mapsto> []))"
      "load_calls sa = load_calls s"
  | (load_raises) e sb c where
      "jit_load P verbose s = (Inl e, sb)"
      "environ sb = (case environ s ''TORCH_CUDA_ARCH_LIST'' of
                       None \<Rightarrow> environ s
                     | Some _ \<Rightarrow> (environ s)(''TORCH_CUDA_ARCH_LIST'' \<mapsto> []))"
      "load_calls sb = load_calls s @ [c]"
      "arch_list_during c = environ sb ''TORCH_CUDA_ARCH_LIST''"
  | (loaded) m s' c where
      "jit_load P verbose s = (Inr m, s')"
      "environ s' = environ s"
      "load_calls s' = load_calls s @ [c]"
      "arch_list_during c = (case environ s ''TORCH_CUDA_ARCH_LIST'' of None \<Rightarrow> None | Some _ \<Rightarrow> Some [])"
proof -
  define s2 where "s2 = (if isinstance_CUDAOpBuilder s then set_build_for_cpu P s else s)\<lparr>jit_mode := True\<rparr>"
  obtain t s3 where st: "stash_arch_list s2 = (t, s3)" by (cases "stash_arch_list s2")
  obtain r s4 where jf: "jit_flags P s3 = (r, s4)" by (cases "jit_flags P s3")
  have p2: "same_process s s2"
    using set_build_for_cpu_same [of s s P] by (simp add: s2_def)
  then have e2: "environ s2 = environ s" and l2: "load_calls s2 = load_calls s"
    by (simp_all add: same_process_def)
  then have t: "t = environ s ''TORCH_CUDA_ARCH_LIST''"
    and e3: "environ s3 = (case environ s ''TORCH_CUDA_ARCH_LIST'' of
                       None \<Rightarrow> environ s
                     | Some _ \<Rightarrow> (environ s)(''TORCH_CUDA_ARCH_LIST'' \<mapsto> []))"
    and l3: "load_calls s3 = load_calls s"
    using stash_arch_list_environ [of s2] st by (simp_all split: option.splits)
  have p4: "same_process s3 s4"
    using jit_flags_same [of s3 s3 P] jf by simp
  then have e4: "environ s4 = environ s3" and l4: "load_calls s4 = load_calls s"
    using l3 by (simp_all add: same_process_def)
  define mk where "mk = (\<lambda>flags s4.
                \<lparr>load_name = name s4,
                 load_sources = strip_empty_entries (map (atorch_src_path P) (op_sources s2)),
                 extra_include_paths = strip_empty_entries (map (atorch_src_path P) (include_paths s2)),
                 extra_cflags = fst flags,
                 extra_cuda_cflags = snd flags,
                 load_extra_ldflags = strip_empty_entries (extra_ldflags s4),
                 load_verbose = verbose,
                 arch_list_during = None\<rparr>)"
  define fin where "fin = (\<lambda>op_module s5.
                (Inr op_module :: exn + string,
                 reset_arch_list t
                   (if verbose then
                      print (''Time to load '' @ name s5 @ '' op: '' @ build_duration P @ '' seconds'') s5
                    else s5)))"
  have "jit_load P verbose s =
      (case stash_arch_list s2 of
         (torch_arch_list, s3) \<Rightarrow>
           and_then (jit_flags P s3)
             (\<lambda>flags s4. and_then (load P (mk flags s4) s4)
                (\<lambda>op_module s5.
                (Inr op_module,
                 reset_arch_list torch_arch_list
                   (if verbose then
                      print (''Time to load '' @ name s5 @ '' op: '' @ build_duration P @ '' seconds'') s5
                    else s5)))))"
    unfolding jit_load_def Let_def is_compatible_def s2_def [symmetric] mk_def
    using assms by simp
  then have jl: "jit_load P verbose s =
      and_then (r, s4) (\<lambda>flags s4. and_then (load P (mk flags s4) s4) fin)"
    using st jf by (simp add: fin_def)
  show ?thesis
  proof (cases r)
    case (Inl e)
    with jl have "jit_load P verbose s = (Inl e, s4)" by (simp add: and_then_def)
    then show ?thesis
      using e4 e3 l4 by (intro flags_raise [where e = e and sa = s4]) simp_all
  next
    case (Inr flags)
    let ?c = "(mk flags s4)\<lparr>arch_list_during := environ s4 ''TORCH_CUDA_ARCH_LIST''\<rparr>"
    let ?s5 = "s4\<lparr>load_calls := load_calls s4 @ [?c]\<rparr>"
    have ld: "load P (mk flags s4) s4 = (load_result P, ?s5)"
      by (simp add: load_def)
    show ?thesis
    proof (cases "load_result P")
      case (Inl e)
      with Inr jl ld have "jit_load P verbose s = (Inl e, ?s5)"
        by (simp add: and_then_def)
      then show ?thesis
        using e4 e3 l4 by (intro load_raises [where e = e and sb = ?s5 and c = ?c]) simp_all
    next
      case m: (Inr m)
      let ?s' = "reset_arch_list t
                   (if verbose then
                      print (''Time to load '' @ name ?s5 @ '' op: '' @ build_duration P @ '' seconds'') ?s5
                    else ?s5)"
      from Inr m jl ld have r: "jit_load P verbose s = (Inr m, ?s')"
        by (simp add: and_then_def fin_def)
      have "environ ?s' = environ s"
        using t e3 e4 by (auto simp add: reset_arch_list_environ split: option.splits)
      moreover have "load_calls ?s' = load_calls s @ [?c]"
        using l4 by simp
      moreover have "arch_list_during ?c
          = (case environ s ''TORCH_CUDA_ARCH_LIST'' of None \<Rightarrow> None | Some _ \<Rightarrow> Some [])"
        using e3 e4 by (simp split: option.splits)
      ultimately show ?thesis
        using r by (intro loaded [where m = m and s' = ?s' and c = ?c])
    qed
  qed
qed

text \<open>
  Claim C10.  When \<open>jit_load\<close> returns, the environment is the one it was entered
  with, \<open>TORCH_CUDA_ARCH_LIST\<close> included; the one call of \<open>load\<close> it made ran with
  the variable blank if it was set on entry, and absent if it was not.  If the variable
  was unset on entry, it is unset however \<open>jit_load\<close> ends, and in every call of
  \<open>load\<close>.
\<close>

theorem jit_load_restores_arch_list:
  "(\<forall>m s'. jit_load P verbose s = (Inr m, s') \<longrightarrow>
       environ s' = environ s
       \<and> (\<exists>c. new_load_calls s s' = [c]
              \<and> arch_list_during c
                  = (case environ s ''TORCH_CUDA_ARCH_LIST'' of None \<Rightarrow> None | Some _ \<Rightarrow> Some [])))
   \<and> (environ s ''TORCH_CUDA_ARCH_LIST'' = None \<longrightarrow>
        environ (snd (jit_load P verbose s)) ''TORCH_CUDA_ARCH_LIST'' = None
        \<and> (\<forall>c \<in> set (new_load_calls s (snd (jit_load P verbose s))). arch_list_during c = None))"
proof (cases "ninja_import P")
  case (Some e)
  then show ?thesis
    by (simp add: jit_load_def is_compatible_def new_load_calls_def)
next
  case None
  then show ?thesis
  proof (cases rule: jit_load_run [where verbose = verbose and s = s])
    case (flags_raise e sa)
    then show ?thesis by (simp add: new_load_calls_def)
  next
    case (load_raises e sb c)
    then show ?thesis by (simp add: new_load_calls_def)
  next
    case (loaded m s' c)
    then show ?thesis by (simp add: new_load_calls_def)
  qed
qed

theorem jit_load_restores_arch_list_witness:
  "returns (jit_load example_probes True (example_state\<lparr>environ := [''TORCH_CUDA_ARCH_LIST'' \<mapsto> ''7.5'']\<rparr>))
   \<and> environ (snd (jit_load example_probes True
                     (example_state\<lparr>environ := [''TORCH_CUDA_ARCH_LIST'' \<mapsto> ''7.5'']\<rparr>)))
        ''TORCH_CUDA_ARCH_LIST'' = Some ''7.5''
   \<and> map arch_list_during
        (new_load_calls (example_state\<lparr>environ := [''TORCH_CUDA_ARCH_LIST'' \<mapsto> ''7.5'']\<rparr>)
           (snd (jit_load example_probes True
                   (example_state\<lparr>environ := [''TORCH_CUDA_ARCH_LIST'' \<mapsto> ''7.5'']\<rparr>))))
       = [Some []]
   \<and> returns (jit_load example_probes True example_state)
   \<and> environ (snd (jit_load example_probes True example_state)) ''TORCH_CUDA_ARCH_LIST'' = None"
proof -
  let ?s = "example_state\<lparr>environ := [''TORCH_CUDA_ARCH_LIST'' \<mapsto> ''7.5'']\<rparr>"
  have r: "returns (jit_load example_probes True ?s)"
    by code_simp
  then obtain m s' where e: "jit_load example_probes True ?s = (Inr m, s')"
    by (auto simp add: returns_iff)
  have v: "environ ?s ''TORCH_CUDA_ARCH_LIST'' = Some ''7.5''"
    by simp
  from jit_load_restores_arch_list [of example_probes True ?s] e
  obtain c where "environ s' = environ ?s" and "new_load_calls ?s s' = [c]"
    and "arch_list_during c
           = (case environ ?s ''TORCH_CUDA_ARCH_LIST'' of None \<Rightarrow> None | Some _ \<Rightarrow> Some [])"
    by blast
  with e v have a: "environ (snd (jit_load example_probes True ?s)) ''TORCH_CUDA_ARCH_LIST'' = Some ''7.5''"
    and b: "map arch_list_during (new_load_calls ?s (snd (jit_load example_probes True ?s))) = [Some []]"
    by simp_all
  have r0: "returns (jit_load example_probes True example_state)"
    by code_simp
  have u: "environ example_state ''TORCH_CUDA_ARCH_LIST'' = None"
    by (simp add: example_state_def)
  with jit_load_restores_arch_list [of example_probes True example_state]
  have c: "environ (snd (jit_load example_probes True example_state)) ''TORCH_CUDA_ARCH_LIST'' = None"
    by blast
  show ?thesis using r a b r0 c by blast
qed

text \<open>The other exit: when the variable was set and \<open>jit_load\<close> raises after the
  stash (in \<open>nvcc_args\<close>, \<open>cxx_args\<close> or \<open>load\<close>), no handler writes the value
  back, and the variable stays blank.\<close>

lemma jit_load_raise_leaves_blank:
  assumes "ninja_import P = None" and "environ s ''TORCH_CUDA_ARCH_LIST'' = Some v"
    and "jit_load P verbose s = (Inl e, s')"
  shows "environ s' ''TORCH_CUDA_ARCH_LIST'' = Some []"
  using assms(1)
proof (cases rule: jit_load_run [where verbose = verbose and s = s])
  case (flags_raise e sa)
  with assms show ?thesis by simp
next
  case (load_raises e sb c)
  with assms show ?thesis by simp
next
  case (loaded m s' c)
  with assms show ?thesis by simp
qed

end
